theory Spec2Isabelle
  imports Complex_Main "HOL-Library.Monad_Syntax"
begin

section \<open>Numbers, errors and numpy helpers\<close>

text \<open>
  Python floats are modelled as real numbers: IEEE rounding, overflow and underflow are
  outside the model. A Python exception is a value of \<open>py_error\<close>; a function that can
  raise returns \<open>py_error + 'a\<close> with \<open>Inl\<close> for the exception. \<open>NonFinite\<close> is not an
  exception: it marks a result that numpy fills with nan or inf after a warning.
\<close>

datatype py_error = KeyError string | ValueError | ZeroDivisionError | LinAlgError | NonFinite

text \<open>\<open>np.clip(x, a_min, a_max)\<close> is \<open>minimum(a_max, maximum(x, a_min))\<close>.\<close>

definition np_clip :: "real \<Rightarrow> real \<Rightarrow> real \<Rightarrow> real" where
  "np_clip x a_min a_max = min a_max (max x a_min)"

text \<open>\<open>np.mean\<close> and \<open>np.std\<close> (population standard deviation, \<open>ddof = 0\<close>) of an array
  that the caller knows to be non-empty.\<close>

definition np_mean :: "real list \<Rightarrow> real" where
  "np_mean xs = sum_list xs / real (length xs)"


subsection \<open>Float operations that can leave the finite numbers\<close>




text \<open>
  \<open>np.percentile(a, q)\<close> with the default linear interpolation, for \<open>0 \<le> q \<le> 100\<close>: on
  the sorted array the virtual index is \<open>(n - 1) * q / 100\<close>, and the result interpolates
  between the entries at its floor and at the next index (capped at the last one).
\<close>

definition nan_percentile :: "real list \<Rightarrow> real \<Rightarrow> real option" where
  "nan_percentile xs q =
     (if xs = [] then None
      else let s = sort xs;
               n = length xs;
               virtual_index = real (n - 1) * (q / 100);
               previous_index = nat \<lfloor>virtual_index\<rfloor>;
               next_index = min (previous_index + 1) (n - 1);
               gamma = virtual_index - real previous_index
           in Some (s ! previous_index + (s ! next_index - s ! previous_index) * gamma))"



text \<open>The boolean masks \<open>presses[presses < threshold]\<close> and \<open>presses[presses >= threshold]\<close>.\<close>

definition dots_of :: "real list \<Rightarrow> real \<Rightarrow> real list" where
  "dots_of presses thr = filter (\<lambda>p. p < thr) presses"

definition dashes_of :: "real list \<Rightarrow> real \<Rightarrow> real list" where
  "dashes_of presses thr = filter (\<lambda>p. p \<ge> thr) presses"

section \<open>Enrollment (enrollment.py)\<close>

text \<open>
  The metrics argument of \<open>add\<close> is a dict from metric names to floats: a partial map.
  \<open>metrics["k"]\<close> raises \<open>KeyError\<close> on a missing key, \<open>metrics.get("k", d)\<close> does not.
\<close>

type_synonym metrics = "string \<rightharpoonup> real"

definition getitem :: "metrics \<Rightarrow> string \<Rightarrow> py_error + real" where
  "getitem m k = (case m k of None \<Rightarrow> Inl (KeyError k) | Some v \<Rightarrow> Inr v)"

definition get_default :: "metrics \<Rightarrow> string \<Rightarrow> real \<Rightarrow> real" where
  "get_default m k d = (case m k of None \<Rightarrow> d | Some v \<Rightarrow> v)"

record enrollment =
  min_samples :: int
  max_samples :: int
  samples :: "real list list"
  qualities :: "real list"

definition Enrollment_init :: "int \<Rightarrow> int \<Rightarrow> enrollment" where
  "Enrollment_init mn mx =
     \<lparr>min_samples = mn, max_samples = mx, samples = [], qualities = []\<rparr>"

definition is_complete :: "enrollment \<Rightarrow> bool" where
  "is_complete e = (int (length (samples e)) \<ge> min_samples e)"

definition can_accept_more :: "enrollment \<Rightarrow> bool" where
  "can_accept_more e = (int (length (samples e)) < max_samples e)"

definition compute_quality :: "metrics \<Rightarrow> py_error + real" where
  "compute_quality m =
     (case getitem m ''timing_precision'' of Inl err \<Rightarrow> Inl err | Inr timing \<Rightarrow>
     (case getitem m ''tempo_consistency'' of Inl err \<Rightarrow> Inl err | Inr tempo \<Rightarrow>
     (case getitem m ''pattern_accuracy'' of Inl err \<Rightarrow> Inl err | Inr pattern \<Rightarrow>
        let outlier_ratio = get_default m ''outlier_ratio'' 0;
            outlier_score = 1 - outlier_ratio;
            quality = 0.40 * timing + 0.30 * tempo + 0.20 * pattern + 0.10 * outlier_score
        in Inr (np_clip quality 0 1))))"

definition passes_gate :: "metrics \<Rightarrow> py_error + (bool \<times> string option)" where
  "passes_gate m =
     (case getitem m ''pattern_accuracy'' of Inl err \<Rightarrow> Inl err | Inr pattern \<Rightarrow>
        if pattern < 1 then Inr (False, Some ''Pattern mismatch'')
        else (case getitem m ''timing_precision'' of Inl err \<Rightarrow> Inl err | Inr timing \<Rightarrow>
          if timing < 0.85 then Inr (False, Some ''Timing precision too low'')
          else if get_default m ''outlier_ratio'' 0 > 0.25
               then Inr (False, Some ''Too many rhythm outliers'')
               else Inr (True, None)))"

record add_result =
  status :: string
  quality_score :: real
  rejection_reason :: "string option"
  samples_collected :: nat
  samples_needed :: int

text \<open>
  \<open>add\<close> returns its result dict together with the accumulator after the call. Both
  helpers run before any append, so a raised exception leaves the accumulator as it was.
\<close>

definition add :: "enrollment \<Rightarrow> real list \<Rightarrow> metrics \<Rightarrow> py_error + (add_result \<times> enrollment)" where
  "add e feature_vector rhythm_metrics =
     (case compute_quality rhythm_metrics of Inl err \<Rightarrow> Inl err | Inr quality \<Rightarrow>
     (case passes_gate rhythm_metrics of Inl err \<Rightarrow> Inl err | Inr (accepted, reason) \<Rightarrow>
        let e' = (if accepted
                  then e\<lparr>samples := samples e @ [feature_vector],
                         qualities := qualities e @ [quality]\<rparr>
                  else e)
        in Inr (\<lparr>status = (if accepted then ''accepted'' else ''rejected''),
                 quality_score = quality,
                 rejection_reason = reason,
                 samples_collected = length (samples e'),
                 samples_needed = max 0 (min_samples e' - int (length (samples e')))\<rparr>,
                e')))"

text \<open>The accumulator object after a call of \<open>add\<close>, whether it returned or raised.\<close>

definition add_state :: "enrollment \<Rightarrow> real list \<Rightarrow> metrics \<Rightarrow> enrollment" where
  "add_state e v m = (case add e v m of Inl err \<Rightarrow> e | Inr (r, e') \<Rightarrow> e')"

text \<open>The accumulator after a sequence of \<open>add\<close> calls, in order.\<close>

fun add_all :: "enrollment \<Rightarrow> (real list \<times> metrics) list \<Rightarrow> enrollment" where
  "add_all e [] = e"
| "add_all e ((v, m) # rest) = add_all (add_state e v m) rest"

text \<open>
  The states reached from a fresh accumulator when the caller calls \<open>add\<close> only while
  \<open>can_accept_more()\<close> is true.
\<close>

inductive guarded_reachable :: "int \<Rightarrow> int \<Rightarrow> enrollment \<Rightarrow> bool" where
  fresh: "guarded_reachable mn mx (Enrollment_init mn mx)"
| step: "guarded_reachable mn mx e \<Longrightarrow> can_accept_more e \<Longrightarrow>
         guarded_reachable mn mx (add_state e v m)"

code_pred guarded_reachable .

text \<open>A metrics dict that passes every check of the hard gate.\<close>

definition good_metrics :: metrics where
  "good_metrics = [''timing_precision'' \<mapsto> 0.9, ''tempo_consistency'' \<mapsto> 0.8,
                   ''pattern_accuracy'' \<mapsto> 1, ''outlier_ratio'' \<mapsto> 0.1]"

text \<open>A metrics dict whose fields read by the accumulator all lie in \<open>[0, 1]\<close>
  (the docstring of \<open>_compute_quality\<close>); \<open>outlier_ratio\<close> is optional.\<close>

definition in_unit :: "real option \<Rightarrow> bool" where
  "in_unit x = (case x of None \<Rightarrow> False | Some v \<Rightarrow> 0 \<le> v \<and> v \<le> 1)"

definition valid_metrics :: "metrics \<Rightarrow> bool" where
  "valid_metrics m =
     (in_unit (m ''timing_precision'') \<and> in_unit (m ''tempo_consistency'') \<and>
      in_unit (m ''pattern_accuracy'') \<and>
      (m ''outlier_ratio'' = None \<or> in_unit (m ''outlier_ratio'')))"

subsection \<open>Profile building\<close>



definition ncols :: "real list list \<Rightarrow> nat" where
  "ncols rows = (case rows of [] \<Rightarrow> 0 | r # _ \<Rightarrow> length r)"

text \<open>A list of vectors becomes a 2-D array only when all vectors have one length.\<close>

definition rectangular :: "real list list \<Rightarrow> bool" where
  "rectangular rows = list_all (\<lambda>r. length r = ncols rows) rows"



text \<open>The invariant of the stored lists under well-formed metrics: one quality per
  sample, none below the floor the gate implies.\<close>

definition stored_ok :: "enrollment \<Rightarrow> bool" where
  "stored_ok e = (length (qualities e) = length (samples e) \<and>
                  list_all (\<lambda>q. 0.615 \<le> q) (qualities e))"

section \<open>Matcher (matcher.py)\<close>

subsection \<open>Arrays\<close>

text \<open>
  A float that may fail to be finite (nan or an infinity). The only non-finite distance
  of the model is the nan that \<open>np.sqrt\<close> returns (with a warning, not an exception)
  for a negative argument; nan compares false with every number.
\<close>

datatype npfloat = Fin real | NonFin

definition nf_less :: "npfloat \<Rightarrow> real \<Rightarrow> bool" where
  "nf_less d t = (case d of Fin x \<Rightarrow> x < t | NonFin \<Rightarrow> False)"

definition np_sqrt :: "real \<Rightarrow> npfloat" where
  "np_sqrt x = (if x < 0 then NonFin else Fin (sqrt x))"

text \<open>
  \<open>a - b\<close> on 1-D arrays: equal lengths subtract elementwise, a length-1 operand is
  broadcast, any other pair of lengths raises \<open>ValueError\<close>.
\<close>

definition np_sub :: "real list \<Rightarrow> real list \<Rightarrow> py_error + real list" where
  "np_sub a b =
     (if length a = length b then Inr (map2 (-) a b)
      else if length b = 1 then Inr (map (\<lambda>x. x - hd b) a)
      else if length a = 1 then Inr (map (\<lambda>y. hd a - y) b)
      else Inl ValueError)"

text \<open>
  \<open>cov_matrix + np.eye(cov_matrix.shape[0]) * 1e-4\<close> for a 2-D array given by its rows:
  an \<open>n \<times> n\<close> array is added elementwise, an \<open>n \<times> 1\<close> array is broadcast along its
  columns, other shapes do not give a square sum (the addition or the inversion raises).
\<close>

definition regularize :: "real list list \<Rightarrow> py_error + real list list" where
  "regularize cov =
     (let n = length cov in
      if list_all (\<lambda>r. length r = n) cov
      then Inr (map (\<lambda>i. map (\<lambda>j. cov ! i ! j + (if i = j then 1 / 10000 else 0)) [0..<n])
                    [0..<n])
      else if list_all (\<lambda>r. length r = 1) cov
      then Inr (map (\<lambda>i. map (\<lambda>j. cov ! i ! 0 + (if i = j then 1 / 10000 else 0)) [0..<n])
                    [0..<n])
      else Inl ValueError)"

text \<open>\<open>v @ M\<close> for a 1-D \<open>v\<close> and a 2-D \<open>M\<close>, and \<open>u @ v\<close> for two 1-D arrays.\<close>

definition vec_mat :: "real list \<Rightarrow> real list list \<Rightarrow> py_error + real list" where
  "vec_mat v M =
     (if length v = length M \<and> rectangular M
      then Inr (map (\<lambda>j. sum_list (map2 (\<lambda>vi row. vi * row ! j) v M)) [0..<ncols M])
      else Inl ValueError)"

definition dot :: "real list \<Rightarrow> real list \<Rightarrow> py_error + real" where
  "dot u v = (if length u = length v then Inr (sum_list (map2 (*) u v)) else Inl ValueError)"

subsection \<open>Profiles and the matcher object\<close>

text \<open>
  A stored profile is a dict; the model keeps the keys the matcher reads, each one
  optional, with values of the shape the matcher expects (vectors, a matrix given by its
  rows, a number). Other keys are never read.
\<close>

record stored_profile =
  p_mean :: "real list option"
  p_mean_vector :: "real list option"
  p_std :: "real list option"
  p_std_vector :: "real list option"
  p_std_dev :: "real list option"
  p_cov_matrix :: "real list list option"
  p_recommended_threshold :: "real option"

record matcher =
  threshold :: "real option"
  metric :: string
  use_dynamic_threshold :: bool

definition MIN_THRESHOLD :: real where
  "MIN_THRESHOLD = 2.5"

definition TOLERANCE_MULTIPLIER :: real where
  "TOLERANCE_MULTIPLIER = 1.2"

definition Matcher_init :: "real option \<Rightarrow> string \<Rightarrow> bool \<Rightarrow> matcher" where
  "Matcher_init t k dyn = \<lparr>threshold = t, metric = k, use_dynamic_threshold = dyn\<rparr>"

definition normalize_profile :: "stored_profile \<Rightarrow> stored_profile" where
  "normalize_profile profile =
     (let n1 = (if p_mean profile = None \<and> p_mean_vector profile \<noteq> None
                then profile\<lparr>p_mean := p_mean_vector profile\<rparr>
                else profile);
          n2 = (if p_std n1 = None
                then (if p_std_vector n1 \<noteq> None then n1\<lparr>p_std := p_std_vector n1\<rparr>
                      else if p_std_dev n1 \<noteq> None then n1\<lparr>p_std := p_std_dev n1\<rparr>
                      else n1)
                else n1)
      in n2)"

subsection \<open>Distances\<close>

definition euclidean_distance :: "real list \<Rightarrow> stored_profile \<Rightarrow> py_error + real" where
  "euclidean_distance test_vector profile =
     (case p_mean profile of None \<Rightarrow> Inl (KeyError ''mean'')
      | Some mean_vec \<Rightarrow>
         (case np_sub test_vector mean_vec of Inl err \<Rightarrow> Inl err
          | Inr diff \<Rightarrow> Inr (sqrt (sum_list (map (\<lambda>x. x\<^sup>2) diff)))))"

definition manhattan_distance :: "real list \<Rightarrow> stored_profile \<Rightarrow> py_error + real" where
  "manhattan_distance test_vector profile =
     (case p_mean profile of None \<Rightarrow> Inl (KeyError ''mean'')
      | Some mean_vec \<Rightarrow>
         (case np_sub test_vector mean_vec of Inl err \<Rightarrow> Inl err
          | Inr diff \<Rightarrow> Inr (sum_list (map abs diff))))"

text \<open>
  The body of the \<open>try\<close> block of \<open>_mahalanobis_distance\<close>. \<open>np.linalg.inv\<close> is library
  code: it is the parameter \<open>linalg_inv\<close>, which returns the inverse or raises
  (\<open>LinAlgError\<close> for a singular or non-square argument).
\<close>

definition mahalanobis_try ::
  "(real list list \<Rightarrow> py_error + real list list) \<Rightarrow> real list \<Rightarrow> real list \<Rightarrow>
   real list list \<Rightarrow> py_error + npfloat" where
  "mahalanobis_try linalg_inv test_vector mean_vec cov_matrix =
     (case regularize cov_matrix of Inl err \<Rightarrow> Inl err | Inr cov_matrix_reg \<Rightarrow>
     (case linalg_inv cov_matrix_reg of Inl err \<Rightarrow> Inl err | Inr cov_inv \<Rightarrow>
     (case np_sub test_vector mean_vec of Inl err \<Rightarrow> Inl err | Inr diff \<Rightarrow>
     (case vec_mat diff cov_inv of Inl err \<Rightarrow> Inl err | Inr row \<Rightarrow>
     (case dot row diff of Inl err \<Rightarrow> Inl err | Inr q \<Rightarrow> Inr (np_sqrt q))))))"

definition mahalanobis_distance ::
  "(real list list \<Rightarrow> py_error + real list list) \<Rightarrow> real list \<Rightarrow> stored_profile \<Rightarrow>
   py_error + npfloat" where
  "mahalanobis_distance linalg_inv test_vector profile =
     (case p_mean profile of None \<Rightarrow> Inl (KeyError ''mean'')
      | Some mean_vec \<Rightarrow>
         (case p_cov_matrix profile of
            None \<Rightarrow> map_sum id Fin (euclidean_distance test_vector profile)
          | Some cov_matrix \<Rightarrow>
              if length cov_matrix \<noteq> length test_vector
              then map_sum id Fin (euclidean_distance test_vector profile)
              else (case mahalanobis_try linalg_inv test_vector mean_vec cov_matrix of
                      Inr distance \<Rightarrow> Inr distance
                    | Inl err \<Rightarrow> map_sum id Fin (euclidean_distance test_vector profile))))"

text \<open>
  \<open>_calculate_confidence\<close> is called with a numpy distance, so the division by a zero
  distance (possible only for a negative threshold) gives an infinity, not an exception.
\<close>

definition calculate_confidence :: "npfloat \<Rightarrow> real \<Rightarrow> npfloat" where
  "calculate_confidence distance thr =
     (if thr = 0 then Fin 0
      else (case distance of
              NonFin \<Rightarrow> NonFin
            | Fin d \<Rightarrow> if d < thr then Fin (1 - d / thr)
                       else if d = 0 then NonFin
                       else Fin (1 - thr / d)))"

subsection \<open>Authentication\<close>

text \<open>Steps 2 and 3 of \<open>authenticate\<close>: the base threshold, the floor and the multiplier.\<close>

definition static_threshold :: "matcher \<Rightarrow> real" where
  "static_threshold m = (case threshold m of None \<Rightarrow> 2 | Some t \<Rightarrow> t)"

definition base_threshold :: "matcher \<Rightarrow> stored_profile \<Rightarrow> real" where
  "base_threshold m profile =
     (case p_recommended_threshold profile of
        Some rt \<Rightarrow> if use_dynamic_threshold m then rt else static_threshold m
      | None \<Rightarrow> static_threshold m)"

definition effective_threshold :: "matcher \<Rightarrow> stored_profile \<Rightarrow> real" where
  "effective_threshold m profile =
     max (base_threshold m profile) MIN_THRESHOLD * TOLERANCE_MULTIPLIER"

record details =
  d_distance :: npfloat
  d_threshold :: real
  d_margin :: "npfloat option"
  d_confidence :: npfloat
  d_metric :: "string option"

definition nf_rsub :: "real \<Rightarrow> npfloat \<Rightarrow> npfloat" where
  "nf_rsub t d = (case d of Fin x \<Rightarrow> Fin (t - x) | NonFin \<Rightarrow> NonFin)"

definition metric_distance ::
  "(real list list \<Rightarrow> py_error + real list list) \<Rightarrow> string \<Rightarrow> real list \<Rightarrow>
   stored_profile \<Rightarrow> py_error + npfloat" where
  "metric_distance linalg_inv k test_vector profile =
     (if k = ''euclidean'' then map_sum id Fin (euclidean_distance test_vector profile)
      else if k = ''manhattan'' then map_sum id Fin (manhattan_distance test_vector profile)
      else if k = ''mahalanobis'' then mahalanobis_distance linalg_inv test_vector profile
      else map_sum id Fin (euclidean_distance test_vector profile))"

definition authenticate ::
  "(real list list \<Rightarrow> py_error + real list list) \<Rightarrow> matcher \<Rightarrow> real list \<Rightarrow>
   stored_profile \<Rightarrow> py_error + (npfloat \<times> bool \<times> details)" where
  "authenticate linalg_inv m test_vector profile0 =
     (let profile = normalize_profile profile0 in
      if p_mean profile = None
      then Inr (Fin 999, False,
                \<lparr>d_distance = Fin 999, d_threshold = 0, d_margin = None,
                 d_confidence = Fin 1, d_metric = None\<rparr>)
      else
        let eff = effective_threshold m profile in
        (case metric_distance linalg_inv (metric m) test_vector profile of
           Inl err \<Rightarrow> Inl err
         | Inr distance \<Rightarrow>
             let accepted = nf_less distance eff;
                 confidence = calculate_confidence distance eff
             in Inr (distance, accepted,
                     \<lparr>d_distance = distance, d_threshold = eff,
                      d_margin = Some (nf_rsub eff distance),
                      d_confidence = confidence, d_metric = Some (metric m)\<rparr>)))"

record metric_result =
  r_distance :: npfloat
  r_accepted :: bool
  r_confidence :: npfloat

record vote_results =
  per_metric :: "string \<rightharpoonup> metric_result"
  final_decision :: bool
  avg_confidence :: npfloat
  votes :: string

text \<open>
  The loop of \<open>authenticate_with_multiple_metrics\<close>: each round saves \<open>self.metric\<close>,
  sets it to the round's metric, calls \<open>authenticate\<close> and restores the saved value. An
  exception of \<open>authenticate\<close> leaves the loop before the restore. The function returns
  the results so far (or the exception) and the matcher object as the loop leaves it.
\<close>

fun collect_results ::
  "(real list list \<Rightarrow> py_error + real list list) \<Rightarrow> matcher \<Rightarrow> real list \<Rightarrow>
   stored_profile \<Rightarrow> string list \<Rightarrow> (string \<rightharpoonup> metric_result) \<Rightarrow>
   (py_error + (string \<rightharpoonup> metric_result)) \<times> matcher" where
  "collect_results linalg_inv m test_vector profile [] results = (Inr results, m)"
| "collect_results linalg_inv m test_vector profile (k # ks) results =
     (let original_metric = metric m;
          m1 = m\<lparr>metric := k\<rparr>
      in case authenticate linalg_inv m1 test_vector profile of
           Inl err \<Rightarrow> (Inl err, m1)
         | Inr (distance, accepted, det) \<Rightarrow>
             collect_results linalg_inv (m1\<lparr>metric := original_metric\<rparr>) test_vector profile ks
               (results(k \<mapsto> \<lparr>r_distance = distance, r_accepted = accepted,
                                r_confidence = d_confidence det\<rparr>)))"

definition nf_mean :: "npfloat list \<Rightarrow> npfloat" where
  "nf_mean xs =
     (if list_all (\<lambda>x. x \<noteq> NonFin) xs
      then Fin (np_mean (map (\<lambda>x. case x of Fin r \<Rightarrow> r | NonFin \<Rightarrow> 0) xs))
      else NonFin)"

fun str_nat :: "nat \<Rightarrow> string" where
  "str_nat n = (if n < 10 then [''0123456789'' ! n]
                else str_nat (n div 10) @ [''0123456789'' ! (n mod 10)])"

definition metric_names :: "string list" where
  "metric_names = [''euclidean'', ''manhattan'', ''mahalanobis'']"

definition authenticate_with_multiple_metrics ::
  "(real list list \<Rightarrow> py_error + real list list) \<Rightarrow> matcher \<Rightarrow> real list \<Rightarrow>
   stored_profile \<Rightarrow> (py_error + vote_results) \<times> matcher" where
  "authenticate_with_multiple_metrics linalg_inv m test_vector profile0 =
     (let profile = normalize_profile profile0 in
      case collect_results linalg_inv m test_vector profile metric_names Map.empty of
        (Inl err, m') \<Rightarrow> (Inl err, m')
      | (Inr results, m') \<Rightarrow>
          (case (results ''euclidean'', results ''manhattan'', results ''mahalanobis'') of
             (Some eu, Some ma, Some mh) \<Rightarrow>
               let confidence_values = [r_confidence eu, r_confidence ma, r_confidence mh];
                   avg = nf_mean confidence_values;
                   n_votes = length (filter r_accepted [eu, ma, mh]);
                   decision = (if r_accepted eu \<and> n_votes \<ge> 1 then True else n_votes \<ge> 2)
               in (Inr \<lparr>per_metric = results, final_decision = decision,
                        avg_confidence = avg, votes = str_nat n_votes @ ''/3''\<rparr>, m')
           | _ \<Rightarrow> (Inl (KeyError ''metric''), m')))"

subsection \<open>Sample inputs\<close>

text \<open>An inverse routine that always raises, a profile without any key, and a profile
  with a mean vector and a small recommended threshold.\<close>

definition no_inverse :: "real list list \<Rightarrow> py_error + real list list" where
  "no_inverse M = Inl LinAlgError"

definition empty_profile :: stored_profile where
  "empty_profile = \<lparr>p_mean = None, p_mean_vector = None, p_std = None, p_std_vector = None,
                     p_std_dev = None, p_cov_matrix = None, p_recommended_threshold = None\<rparr>"

definition example_profile :: stored_profile where
  "example_profile = empty_profile\<lparr>p_mean := Some [1, 2], p_recommended_threshold := Some (1/2)\<rparr>"

section \<open>Feature extractor (optimized_feature_extractor.py)\<close>










section \<open>Rhythm analyzer (rhythm_analyzer.py)\<close>

text \<open>
  \<open>_analyze_dot_dash_separation\<close>. The percentile is taken of at least three presses; the
  means are taken of classes known to be non-empty. A nan percentile (impossible here)
  would leave both masks empty.
\<close>

definition analyze_dot_dash_separation :: "real list \<Rightarrow> real" where
  "analyze_dot_dash_separation presses =
     (if length presses < 3 then 0.5
      else (case nan_percentile presses 25 of
              None \<Rightarrow> 0.7
            | Some dot_duration \<Rightarrow>
                if dot_duration = 0 then 0
                else
                  let thr = dot_duration * 2;
                      dots = dots_of presses thr;
                      dashes = dashes_of presses thr
                  in if length dots = 0 \<or> length dashes = 0 then 0.7
                     else
                       let actual_ratio = (if np_mean dots > 0
                                           then np_mean dashes / np_mean dots else 0);
                           ideal_ratio = 3;
                           ratio_error = \<bar>actual_ratio - ideal_ratio\<bar> / ideal_ratio;
                           separation_score = max 0 (min 1 (1 - ratio_error))
                       in separation_score))"

section \<open>Facts about the numpy helpers\<close>

text \<open>A percentile of positive entries is positive: it interpolates between two of them.\<close>

lemma lerp_pos:
  fixes a b g :: real
  assumes "0 < a" "0 < b" "0 \<le> g" "g < 1"
  shows "0 < a + (b - a) * g"
proof -
  have "a + (b - a) * g = a * (1 - g) + b * g" by (simp add: algebra_simps)
  moreover have "0 < a * (1 - g)" using assms by simp
  moreover have "0 \<le> b * g" using assms by simp
  ultimately show ?thesis by linarith
qed

lemma percentile_index:
  fixes q :: real
  assumes "0 < n" "0 \<le> q" "q \<le> 100"
  shows "nat \<lfloor>real (n - 1) * (q / 100)\<rfloor> < n"
    and "0 \<le> real (n - 1) * (q / 100) - real (nat \<lfloor>real (n - 1) * (q / 100)\<rfloor>)"
    and "real (n - 1) * (q / 100) - real (nat \<lfloor>real (n - 1) * (q / 100)\<rfloor>) < 1"
proof -
  let ?v = "real (n - 1) * (q / 100)"
  have v0: "0 \<le> ?v" using assms by simp
  have "q / 100 \<le> 1" using assms by simp
  then have "?v \<le> real (n - 1) * 1"
    by (intro mult_left_mono) simp_all
  then have v1: "?v \<le> real (n - 1)" by simp
  then have "\<lfloor>?v\<rfloor> \<le> int (n - 1)" by (simp add: floor_le_iff) 
  then show "nat \<lfloor>?v\<rfloor> < n" using assms(1) by linarith
  from v0 have "0 \<le> \<lfloor>?v\<rfloor>" by simp
  then have r: "real (nat \<lfloor>?v\<rfloor>) = of_int \<lfloor>?v\<rfloor>" by simp
  show "0 \<le> ?v - real (nat \<lfloor>?v\<rfloor>)" unfolding r by linarith
  show "?v - real (nat \<lfloor>?v\<rfloor>) < 1" unfolding r by linarith
qed

lemma percentile_pos:
  assumes "xs \<noteq> []" "list_all (\<lambda>x. 0 < x) xs" "0 \<le> q" "q \<le> 100"
  shows "\<exists>d. nan_percentile xs q = Some d \<and> 0 < d"
proof -
  let ?n = "length xs"
  let ?s = "sort xs"
  let ?v = "real (?n - 1) * (q / 100)"
  let ?lo = "nat \<lfloor>?v\<rfloor>"
  let ?hi = "min (?lo + 1) (?n - 1)"
  from assms(1) have n: "0 < ?n" by simp
  have pos: "0 < ?s ! i" if "i < ?n" for i
  proof -
    from that have "?s ! i \<in> set ?s" by (intro nth_mem) simp
    then have "?s ! i \<in> set xs" by simp
    with assms(2) show ?thesis by (simp add: list_all_iff)
  qed
  from percentile_index [OF n assms(3,4)]
  have lo: "?lo < ?n" and g0: "0 \<le> ?v - real ?lo" and g1: "?v - real ?lo < 1" by blast+
  have "?hi \<le> ?n - 1" by (rule min.cobounded2)
  with n have hi: "?hi < ?n" by linarith
  have "0 < ?s ! ?lo + (?s ! ?hi - ?s ! ?lo) * (?v - real ?lo)"
    by (rule lerp_pos [OF pos [OF lo] pos [OF hi] g0 g1])
  with assms(1) show ?thesis by (simp add: nan_percentile_def Let_def)
qed











section \<open>Enrollment: admission\<close>

lemma add_state_count:
  "length (samples (add_state e v m)) \<le> Suc (length (samples e))"
  by (auto simp: add_state_def add_def Let_def split: sum.splits prod.splits)

lemma add_state_max: "max_samples (add_state e v m) = max_samples e"
  by (auto simp: add_state_def add_def Let_def split: sum.splits prod.splits)

lemma add_good: "add_state e v good_metrics =
   e\<lparr>samples := samples e @ [v], qualities := qualities e @ [0.89]\<rparr>"
  by (simp add: add_state_def add_def compute_quality_def passes_gate_def getitem_def
      get_default_def good_metrics_def np_clip_def Let_def)

text \<open>
  C1 (as stated, refuted): six accepted samples added to an accumulator created with
  \<open>max_samples = 5\<close> are all stored, so the count exceeds \<open>max_samples\<close>.
\<close>

theorem C1_unguarded_add_exceeds_max:
  "\<not> int (length (samples (add_all (Enrollment_init 3 5)
        [([1], good_metrics), ([1], good_metrics), ([1], good_metrics),
         ([1], good_metrics), ([1], good_metrics), ([1], good_metrics)])))
     \<le> max_samples (add_all (Enrollment_init 3 5)
        [([1], good_metrics), ([1], good_metrics), ([1], good_metrics),
         ([1], good_metrics), ([1], good_metrics), ([1], good_metrics)])"
  by (simp add: add_good Enrollment_init_def)

text \<open>
  C1 (amended): when \<open>max_samples\<close> is not negative and every call of \<open>add\<close> is made
  while \<open>can_accept_more()\<close> is true, the number of stored samples never exceeds
  \<open>max_samples\<close>.
\<close>

theorem C1_guarded_add_bounded:
  "guarded_reachable mn mx e \<Longrightarrow> 0 \<le> mx \<Longrightarrow>
     max_samples e = mx \<and> int (length (samples e)) \<le> mx"
proof (induction rule: guarded_reachable.induct)
  case (fresh mn mx)
  then show ?case by (simp add: Enrollment_init_def)
next
  case (step mn mx e v m)
  then have "max_samples e = mx" and "int (length (samples e)) < mx"
    by (simp_all add: can_accept_more_def)
  moreover have "length (samples (add_state e v m)) \<le> Suc (length (samples e))"
    by (rule add_state_count)
  ultimately show ?case by (simp add: add_state_max)
qed

theorem C1_guarded_add_bounded_witness:
  "guarded_reachable 3 5 (add_state (Enrollment_init 3 5) [1] good_metrics) \<and> (0::int) \<le> 5 \<and>
   int (length (samples (add_state (Enrollment_init 3 5) [1] good_metrics))) \<le> 5"
proof -
  have r: "guarded_reachable 3 5 (add_state (Enrollment_init 3 5) [1] good_metrics)"
    by (rule guarded_reachable.step [OF guarded_reachable.fresh])
       (simp add: can_accept_more_def Enrollment_init_def)
  from C1_guarded_add_bounded [OF r] r show ?thesis by simp
qed

subsection \<open>Quality floor of gated samples\<close>

lemma np_clip_lower: "lo \<le> x \<Longrightarrow> lo \<le> 1 \<Longrightarrow> lo \<le> np_clip x 0 1"
  by (simp add: np_clip_def)

lemma np_clip_upper: "np_clip x 0 1 \<le> 1"
  by (simp add: np_clip_def)

lemma gate_quality:
  assumes v: "valid_metrics m" and g: "passes_gate m = Inr (True, r)"
  shows "\<exists>q. compute_quality m = Inr q \<and> 0.615 \<le> q \<and> q \<le> 1"
proof -
  from v obtain t c p where
    t: "m ''timing_precision'' = Some t" "0 \<le> t" "t \<le> 1" and
    c: "m ''tempo_consistency'' = Some c" "0 \<le> c" "c \<le> 1" and
    p: "m ''pattern_accuracy'' = Some p" "0 \<le> p" "p \<le> 1"
    by (auto simp: valid_metrics_def in_unit_def split: option.splits)
  from v have o: "0 \<le> get_default m ''outlier_ratio'' 0"
    by (auto simp: valid_metrics_def in_unit_def get_default_def split: option.splits)
  from g t p have g': "\<not> p < 1" "\<not> t < 0.85" "\<not> get_default m ''outlier_ratio'' 0 > 0.25"
    by (auto simp: passes_gate_def getitem_def split: if_splits)
  have "compute_quality m =
     Inr (np_clip (0.40 * t + 0.30 * c + 0.20 * p + 0.10 * (1 - get_default m ''outlier_ratio'' 0)) 0 1)"
    using t c p by (simp add: compute_quality_def getitem_def Let_def)
  moreover have "0.615 \<le> 0.40 * t + 0.30 * c + 0.20 * p + 0.10 * (1 - get_default m ''outlier_ratio'' 0)"
    using g' c(2) by (simp add: power2_eq_square power3_eq_cube field_simps)
  then have "0.615 \<le> np_clip (0.40 * t + 0.30 * c + 0.20 * p + 0.10 * (1 - get_default m ''outlier_ratio'' 0)) 0 1"
    by (rule np_clip_lower) simp
  ultimately show ?thesis using np_clip_upper by blast
qed

lemma add_ok:
  assumes v: "valid_metrics m"
  shows "\<exists>r e'. add e fv m = Inr (r, e')"
  using v by (auto simp: add_def compute_quality_def passes_gate_def getitem_def valid_metrics_def
     in_unit_def Let_def split: option.splits)

lemma add_state_valid:
  assumes v: "valid_metrics m"
  shows "add_state e fv m = e \<or>
         (\<exists>q. 0.615 \<le> q \<and> q \<le> 1 \<and>
              add_state e fv m = e\<lparr>samples := samples e @ [fv], qualities := qualities e @ [q]\<rparr>)"
proof -
  from v obtain t p where t: "m ''timing_precision'' = Some t" and p: "m ''pattern_accuracy'' = Some p"
    by (auto simp: valid_metrics_def in_unit_def split: option.splits)
  then have "\<exists>a r. passes_gate m = Inr (a, r)"
    by (auto simp: passes_gate_def getitem_def)
  then obtain a r where g: "passes_gate m = Inr (a, r)" by blast
  show ?thesis
  proof (cases a)
    case True
    with g have "passes_gate m = Inr (True, r)" by simp
    from gate_quality [OF v this] obtain q where q: "compute_quality m = Inr q" "0.615 \<le> q" "q \<le> 1"
      by blast
    with g True show ?thesis by (auto simp: add_state_def add_def)
  next
    case False
    from add_ok [OF v, of e fv] g False show ?thesis
      by (auto simp: add_state_def add_def Let_def split: sum.splits)
  qed
qed

lemma stored_ok_init: "stored_ok (Enrollment_init mn mx)"
  by (simp add: stored_ok_def Enrollment_init_def)

lemma stored_ok_add_state: "stored_ok e \<Longrightarrow> valid_metrics m \<Longrightarrow> stored_ok (add_state e v m)"
  using add_state_valid [of m e v] by (auto simp: stored_ok_def)

lemma stored_ok_add_all:
  "stored_ok e \<Longrightarrow> list_all (\<lambda>(v, m). valid_metrics m) inputs \<Longrightarrow> stored_ok (add_all e inputs)"
  by (induction e inputs rule: add_all.induct) (auto simp: stored_ok_add_state)



lemma sum_list_floor_pos:
  "list_all (\<lambda>q. (0.615::real) \<le> q) qs \<Longrightarrow> qs \<noteq> [] \<Longrightarrow> 0 < sum_list qs"
proof (induction qs)
  case Nil
  then show ?case by simp
next
  case (Cons q qs)
  then have "0 < q" by simp
  moreover have "0 \<le> sum_list qs"
  proof (cases "qs = []")
    case True
    then show ?thesis by simp
  next
    case False
    with Cons show ?thesis by simp
  qed
  ultimately show ?case by simp
qed



text \<open>
  C2: a metrics dict that carries the three scores read by \<open>_compute_quality\<close> and has
  \<open>pattern_accuracy < 1.0\<close> is rejected by \<open>add\<close> with reason "Pattern mismatch",
  whatever the other values are, and the stored samples and qualities are unchanged.
\<close>

theorem C2_pattern_mismatch_rejected:
  assumes "m ''pattern_accuracy'' = Some p" and "p < 1"
      and "m ''timing_precision'' = Some t" and "m ''tempo_consistency'' = Some c"
  shows "\<exists>r e'. add e v m = Inr (r, e') \<and> status r = ''rejected'' \<and>
           rejection_reason r = Some ''Pattern mismatch'' \<and>
           samples e' = samples e \<and> qualities e' = qualities e"
  using assms by (simp add: add_def compute_quality_def passes_gate_def getitem_def Let_def)

theorem C2_pattern_mismatch_rejected_witness:
  "\<exists>r e'. add (Enrollment_init 3 5) [1, 2]
       [''pattern_accuracy'' \<mapsto> 0.9, ''timing_precision'' \<mapsto> 1, ''tempo_consistency'' \<mapsto> 1]
         = Inr (r, e') \<and> status r = ''rejected'' \<and>
           rejection_reason r = Some ''Pattern mismatch'' \<and>
           samples e' = samples (Enrollment_init 3 5) \<and> qualities e' = qualities (Enrollment_init 3 5)"
  by (rule C2_pattern_mismatch_rejected [where p = "0.9" and t = 1 and c = 1]) simp_all

text \<open>
  C9: for metrics with all fields in \<open>[0, 1]\<close> that pass the hard gate, \<open>add\<close> accepts and
  stores a quality of at least 0.615. Hence, after any sequence of \<open>add\<close> calls with
  metrics in \<open>[0, 1]\<close> on a fresh accumulator, every stored quality is at least 0.615 and
  the sum of the stored qualities (the divisor of the weight normalisation in
  \<open>build_profile\<close>) is positive when a sample is stored.
\<close>

theorem C9_gate_quality_floor:
  assumes "valid_metrics m" and "passes_gate m = Inr (True, None)"
      and "list_all (\<lambda>(v, m). valid_metrics m) inputs"
      and "e = add_all (Enrollment_init mn mx) inputs"
  shows "(\<exists>r e'. add e v m = Inr (r, e') \<and> status r = ''accepted'' \<and>
            0.615 \<le> quality_score r \<and> qualities e' = qualities e @ [quality_score r]) \<and>
         list_all (\<lambda>q. 0.615 \<le> q) (qualities e) \<and>
         (samples e \<noteq> [] \<longrightarrow> 0 < sum_list (qualities e))"
proof -
  from gate_quality [OF assms(1,2)] obtain q where q: "compute_quality m = Inr q" "0.615 \<le> q"
    by blast
  with assms(2) have one: "\<exists>r e'. add e v m = Inr (r, e') \<and> status r = ''accepted'' \<and>
            0.615 \<le> quality_score r \<and> qualities e' = qualities e @ [quality_score r]"
    by (simp add: add_def)
  have ok: "stored_ok e"
    unfolding assms(4) by (rule stored_ok_add_all [OF stored_ok_init assms(3)])
  then have fl: "list_all (\<lambda>q. 0.615 \<le> q) (qualities e)" by (simp add: stored_ok_def)
  have "samples e \<noteq> [] \<longrightarrow> 0 < sum_list (qualities e)"
  proof
    assume "samples e \<noteq> []"
    with ok have "qualities e \<noteq> []" by (auto simp: stored_ok_def)
    with fl show "0 < sum_list (qualities e)" by (rule sum_list_floor_pos)
  qed
  with one fl show ?thesis by blast
qed

theorem C9_gate_quality_floor_witness:
  "valid_metrics good_metrics \<and> passes_gate good_metrics = Inr (True, None) \<and>
   (\<exists>r e'. add (add_all (Enrollment_init 3 5) [([1], good_metrics)]) [2] good_metrics = Inr (r, e') \<and>
       status r = ''accepted'' \<and> 0.615 \<le> quality_score r \<and>
       qualities e' = qualities (add_all (Enrollment_init 3 5) [([1], good_metrics)]) @ [quality_score r]) \<and>
   samples (add_all (Enrollment_init 3 5) [([1], good_metrics)]) \<noteq> [] \<and>
   0 < sum_list (qualities (add_all (Enrollment_init 3 5) [([1], good_metrics)]))"
proof -
  have v: "valid_metrics good_metrics"
    by (simp add: valid_metrics_def in_unit_def good_metrics_def)
  have g: "passes_gate good_metrics = Inr (True, None)"
    by (simp add: passes_gate_def getitem_def get_default_def good_metrics_def)
  have l: "list_all (\<lambda>(v, m). valid_metrics m) [([1::real], good_metrics)]"
    using v by simp
  have s: "samples (add_all (Enrollment_init 3 5) [([1], good_metrics)]) \<noteq> []"
    by (simp add: add_good)
  from C9_gate_quality_floor [OF v g l refl, of 3 5 "[2]"] v g s show ?thesis by blast
qed



section \<open>Matcher: thresholds, fallbacks and the vote\<close>





text \<open>
  C7: when the profile has no covariance matrix, or the length of the stored matrix
  differs from the length of the test vector, \<open>_mahalanobis_distance\<close> gives exactly what
  \<open>_euclidean_distance\<close> gives for the same test vector and profile (the same distance,
  or the same exception).
\<close>

theorem C7_mahalanobis_falls_back:
  assumes "p_cov_matrix profile = None \<or>
           (\<exists>cov. p_cov_matrix profile = Some cov \<and> length cov \<noteq> length test_vector)"
  shows "mahalanobis_distance linalg_inv test_vector profile =
         map_sum id Fin (euclidean_distance test_vector profile)"
  using assms
  by (auto simp: mahalanobis_distance_def euclidean_distance_def split: option.splits)

lemma collect_results_state:
  "collect_results linalg_inv m tv p ks res = (Inr r, m') \<Longrightarrow> m' = m"
proof (induction ks arbitrary: m res)
  case Nil
  then show ?case by simp
next
  case (Cons k ks)
  then show ?case
    by (auto simp: Let_def split: sum.splits prod.splits)
qed

text \<open>
  C10: whenever \<open>authenticate_with_multiple_metrics\<close> returns, the matcher's metric,
  threshold and use_dynamic_threshold fields are what they were before the call.
\<close>

theorem C10_matcher_fields_restored:
  assumes "authenticate_with_multiple_metrics linalg_inv m test_vector profile = (Inr r, m')"
  shows "metric m' = metric m \<and> threshold m' = threshold m \<and>
         use_dynamic_threshold m' = use_dynamic_threshold m"
proof -
  from assms obtain res where
    "collect_results linalg_inv m test_vector (normalize_profile profile) metric_names Map.empty
       = (Inr res, m')"
    by (auto simp: authenticate_with_multiple_metrics_def Let_def
        split: sum.splits prod.splits option.splits)
  then have "m' = m" by (rule collect_results_state)
  then show ?thesis by simp
qed

lemma example_normal: "normalize_profile example_profile = example_profile"
  by (simp add: normalize_profile_def example_profile_def empty_profile_def Let_def)

lemma example_authenticate:
  "authenticate no_inverse \<lparr>threshold = None, metric = k, use_dynamic_threshold = True\<rparr> [1, 2]
     example_profile
   = Inr (Fin 0, True, \<lparr>d_distance = Fin 0, d_threshold = 3, d_margin = Some (Fin 3),
                         d_confidence = Fin 1, d_metric = Some k\<rparr>)"
  by (simp add: authenticate_def example_normal Let_def)
     (simp add: example_profile_def empty_profile_def
      effective_threshold_def base_threshold_def MIN_THRESHOLD_def TOLERANCE_MULTIPLIER_def
      metric_distance_def euclidean_distance_def manhattan_distance_def mahalanobis_distance_def
      np_sub_def nf_less_def calculate_confidence_def nf_rsub_def)



theorem C7_mahalanobis_falls_back_witness:
  "p_cov_matrix (example_profile\<lparr>p_cov_matrix := Some [ [1] ]\<rparr>) = Some [ [1] ] \<and>
   length [ [1::real] ] \<noteq> length [3::real, 6] \<and>
   mahalanobis_distance no_inverse [3, 6] (example_profile\<lparr>p_cov_matrix := Some [ [1] ]\<rparr>) =
     map_sum id Fin (euclidean_distance [3, 6] (example_profile\<lparr>p_cov_matrix := Some [ [1] ]\<rparr>))"
proof -
  have h: "p_cov_matrix (example_profile\<lparr>p_cov_matrix := Some [ [1] ]\<rparr>) = None \<or>
     (\<exists>cov. p_cov_matrix (example_profile\<lparr>p_cov_matrix := Some [ [1] ]\<rparr>) = Some cov \<and>
            length cov \<noteq> length [3::real, 6])"
    by simp
  from C7_mahalanobis_falls_back [OF h] show ?thesis by simp
qed

theorem C10_matcher_fields_restored_witness:
  "\<exists>r m'. authenticate_with_multiple_metrics no_inverse (Matcher_init None ''manhattan'' True) [1, 2]
       example_profile = (Inr r, m') \<and>
     metric m' = ''manhattan'' \<and> threshold m' = None \<and> use_dynamic_threshold m' = True"
proof -
  have "\<exists>r m'. authenticate_with_multiple_metrics no_inverse (Matcher_init None ''manhattan'' True)
       [1, 2] example_profile = (Inr r, m')"
    by (simp add: authenticate_with_multiple_metrics_def metric_names_def Matcher_init_def
        example_normal example_authenticate Let_def)
  then obtain r m' where
    a: "authenticate_with_multiple_metrics no_inverse (Matcher_init None ''manhattan'' True)
       [1, 2] example_profile = (Inr r, m')" by blast
  from C10_matcher_fields_restored [OF a] a show ?thesis
    by (auto simp: Matcher_init_def)
qed

section \<open>Rhythm analyzer: dot/dash separation\<close>

text \<open>
  C8 (as stated, refuted): a single positive press is an all-dot set (no press reaches
  twice the 25th percentile), yet the early return for fewer than three presses gives
  0.5, not 0.7.
\<close>

theorem C8_short_input_scores_half:
  "nan_percentile [1/10] 25 = Some (1/10) \<and>
   dashes_of [1/10] (1/10 * 2) = [] \<and>
   analyze_dot_dash_separation [1/10] = 1/2 \<and>
   analyze_dot_dash_separation [1/10] \<noteq> 0.7"
  by (simp add: nan_percentile_def dashes_of_def analyze_dot_dash_separation_def)

text \<open>
  C8 (amended): for at least three positive presses whose classification at the threshold
  25th percentile * 2.0 leaves the dot class or the dash class empty, the separation
  score is exactly 0.7.
\<close>

theorem C8_single_class_separation:
  assumes "3 \<le> length presses" and "list_all (\<lambda>p. 0 < p) presses"
      and "nan_percentile presses 25 = Some dot_duration"
      and "dots_of presses (dot_duration * 2) = [] \<or> dashes_of presses (dot_duration * 2) = []"
  shows "analyze_dot_dash_separation presses = 0.7"
proof -
  from assms(1) have ne: "presses \<noteq> []" by auto
  from percentile_pos [OF ne assms(2), of 25] assms(3) have "0 < dot_duration" by simp
  with assms show ?thesis
    by (auto simp: analyze_dot_dash_separation_def Let_def)
qed

theorem C8_single_class_separation_witness:
  "3 \<le> length [1/10, 1/10, 1/10 :: real] \<and> list_all (\<lambda>p. 0 < p) [1/10, 1/10, 1/10 :: real] \<and>
   nan_percentile [1/10, 1/10, 1/10] 25 = Some (1/10) \<and>
   dashes_of [1/10, 1/10, 1/10] (1/10 * 2) = [] \<and>
   analyze_dot_dash_separation [1/10, 1/10, 1/10] = 0.7"
proof -
  have l: "3 \<le> length [1/10, 1/10, 1/10 :: real]" by simp
  have a: "list_all (\<lambda>p. 0 < p) [1/10, 1/10, 1/10 :: real]" by simp
  have p: "nan_percentile [1/10, 1/10, 1/10] 25 = Some (1/10)"
    by (simp add: nan_percentile_def)
  have d: "dashes_of [1/10, 1/10, 1/10] (1/10 * 2) = []"
    by (simp add: dashes_of_def)
  from d have c: "dots_of [1/10, 1/10, 1/10] (1/10 * 2) = [] \<or>
                 dashes_of [1/10, 1/10, 1/10] (1/10 * 2) = []" by (rule disjI2)
  from C8_single_class_separation [OF l a p c] l a p d show ?thesis by blast
qed

section \<open>Feature extractor: dimension and finiteness\<close>













end
